theory Spec2Isabelle
  imports Complex_Main "HOL-Library.AList"
begin

section \<open>Python values, exceptions and the logger\<close>

text \<open>
  The module \<^verbatim>\<open>mlagents/trainers/trainer.py\<close> defines the helper class
  \<^verbatim>\<open>TrainerMetrics\<close> and the base class \<^verbatim>\<open>Trainer\<close>. Every exception the module
  can raise in the modelled code is a value of \<open>error\<close>; a method returns its result
  (\<open>Inl\<close> the exception, \<open>Inr\<close> the returned value) together with the object as the call
  left it, because Python keeps the assignments made before an exception.

  Python floats (clock readings, returns, statistics samples) are modelled as \<open>real\<close>:
  subtraction and the mean are exact here, rounding is not modelled. The renderings of
  a float as text (\<^verbatim>\<open>format(c, '.3f')\<close>, \<^verbatim>\<open>str\<close>) are parameters of the functions
  that use them.
\<close>

datatype error =
    UnityTrainerException string
  | TypeError
  | ValueError
  | KeyError string
  | ZeroDivisionError
  | OverflowError
  | OSError

datatype pyval = PNone | PInt int | PFloat real | PStr string

datatype pytype = float_t | int_t | str_t | NoneType_t

fun type_of :: "pyval \<Rightarrow> pytype" where
  "type_of PNone = NoneType_t"
| "type_of (PInt _) = int_t"
| "type_of (PFloat _) = float_t"
| "type_of (PStr _) = str_t"

text \<open>
  An argument of a call to the builtin \<^verbatim>\<open>isinstance\<close>: an object or a type object.
  The builtin takes exactly two arguments, the second a type; any other call raises
  \<^verbatim>\<open>TypeError\<close>.
\<close>

datatype pyarg = Obj pyval | Cls pytype

fun isinstance :: "pyarg list \<Rightarrow> error + bool" where
  "isinstance [Obj v, Cls t] = Inr (type_of v = t)"
| "isinstance [Cls _, Cls _] = Inr False"
| "isinstance _ = Inl TypeError"

text \<open>\<^verbatim>\<open>b is float\<close> for a bool \<open>b\<close>: a bool is never the type object \<^verbatim>\<open>float\<close>.\<close>

definition is_float :: "bool \<Rightarrow> bool" where
  "is_float b = False"

text \<open>
  \<^verbatim>\<open>format(c, '.3f')\<close>: defined for floats and ints, \<^verbatim>\<open>TypeError\<close> for \<^verbatim>\<open>None\<close>,
  \<^verbatim>\<open>ValueError\<close> for a string. \<open>format_3f\<close> is the rendering of a float with three
  decimals.
\<close>

fun py_format_3f :: "(real \<Rightarrow> string) \<Rightarrow> pyval \<Rightarrow> error + string" where
  "py_format_3f format_3f (PFloat x) = Inr (format_3f x)"
| "py_format_3f format_3f (PInt n) = Inr (format_3f (real_of_int n))"
| "py_format_3f format_3f PNone = Inl TypeError"
| "py_format_3f format_3f (PStr s) = Inl ValueError"

text \<open>
  The module-level logger: the records handed to it, oldest first. A message is kept
  with the values it was formatted from.
\<close>

datatype level = DEBUG | INFO

datatype message =
    PolicyUpdateMetrics string real real real "int option" real
  | SummaryStats string string int real real real string
  | NoEpisode string string int string
  | CannotWriteText

type_synonym logger = "(level \<times> message) list"

section \<open>The file system and the csv writer\<close>

text \<open>
  The file system is the nodes by path. A relative path starts in the working directory
  and an absolute one in the root, and both are there. A path is looked up as it is
  written: two spellings of one place (\<^verbatim>\<open>a/b\<close>, \<^verbatim>\<open>a/./b\<close>, \<^verbatim>\<open>a//b\<close>) are two
  keys. Permissions, links and the other refusals of an operating system are outside the
  model. Every failure of a file operation is a subclass of \<^verbatim>\<open>OSError\<close> in Python
  (\<^verbatim>\<open>FileNotFoundError\<close>, \<^verbatim>\<open>IsADirectoryError\<close>, \<^verbatim>\<open>NotADirectoryError\<close>,
  \<^verbatim>\<open>FileExistsError\<close>) and is \<open>OSError\<close> here; a path that holds a null character
  raises \<^verbatim>\<open>ValueError\<close> before the file system is asked.
\<close>

datatype node = File string | Dir

type_synonym fs = "string \<rightharpoonup> node"

text \<open>
  The last component of a path is what follows its last slash. The components
  \<^verbatim>\<open>.\<close> and \<^verbatim>\<open>..\<close> and the empty one (before a repeated or a final slash) name
  a directory that is there as soon as the directories before them are.
\<close>

definition last_component :: "string \<Rightarrow> string" where
  "last_component p = rev (takeWhile (\<lambda>c. c \<noteq> CHR ''/'') (rev p))"

definition dot_name :: "string \<Rightarrow> bool" where
  "dot_name n = (n = [] \<or> n = ''.'' \<or> n = ''..'')"

text \<open>
  The prefixes of a path that end before a slash, the shortest first. \<open>seen\<close> is the
  part of the path already read.
\<close>

fun dirs_above :: "string \<Rightarrow> string \<Rightarrow> string list" where
  "dirs_above seen [] = []"
| "dirs_above seen (c # cs) =
     (if c = CHR ''/'' \<and> seen \<noteq> []
      then seen # dirs_above (seen @ [c]) cs
      else dirs_above (seen @ [c]) cs)"

text \<open>The directories above a path that the file system must hold.\<close>

definition ancestors :: "string \<Rightarrow> string list" where
  "ancestors p = filter (\<lambda>d. \<not> dot_name (last_component d)) (dirs_above [] p)"

definition is_file :: "fs \<Rightarrow> string \<Rightarrow> bool" where
  "is_file files p = (case files p of Some (File c) \<Rightarrow> True | _ \<Rightarrow> False)"

text \<open>
  \<^verbatim>\<open>os.path.exists(path)\<close>. For a path that holds a null character the answer is
  \<^verbatim>\<open>False\<close> (before Python 3.8 the call itself raises the \<^verbatim>\<open>ValueError\<close> that
  \<^verbatim>\<open>os.makedirs\<close> raises after it).
\<close>

definition path_exists :: "fs \<Rightarrow> string \<Rightarrow> bool" where
  "path_exists files p =
     (p \<noteq> [] \<and> CHR 0x00 \<notin> set p
        \<and> (if dot_name (last_component p)
            then list_all (\<lambda>d. files d = Some Dir) (ancestors p)
            else files p \<noteq> None))"

text \<open>
  \<^verbatim>\<open>open(path, 'w')\<close> creates or truncates the file. It raises for the empty path,
  for a path that ends in a slash, in \<^verbatim>\<open>.\<close> or in \<^verbatim>\<open>..\<close>, for a path that names
  a directory, and when a directory above the path is missing or is a file.
\<close>

definition open_w :: "fs \<Rightarrow> string \<Rightarrow> error + fs" where
  "open_w files p =
     (if CHR 0x00 \<in> set p then Inl ValueError
      else if dot_name (last_component p) \<or> files p = Some Dir
              \<or> \<not> list_all (\<lambda>d. files d = Some Dir) (ancestors p)
      then Inl OSError
      else Inr (files(p \<mapsto> File [])))"

text \<open>
  \<^verbatim>\<open>os.makedirs(path)\<close> makes the missing directories above the path, then the
  directory itself. It raises for the empty path, for a path that exists, and when a
  directory above the path is a file; nothing is made then. A path that ends in
  \<^verbatim>\<open>..\<close> raises after the directories above it are made, one that ends in
  \<^verbatim>\<open>.\<close> or in a slash is there once they are. A path that holds a null character
  raises \<^verbatim>\<open>ValueError\<close>; the directories that may have been made above it by then are
  not modelled.
\<close>

definition makedirs :: "fs \<Rightarrow> string \<Rightarrow> (error + unit) \<times> fs" where
  "makedirs files p =
     (if CHR 0x00 \<in> set p then (Inl ValueError, files)
      else if p = [] \<or> path_exists files p \<or> list_ex (is_file files) (ancestors p)
      then (Inl OSError, files)
      else (let files' = fold (\<lambda>d f. f(d \<mapsto> Dir)) (ancestors p) files
            in if last_component p = ''..'' then (Inl OSError, files')
               else if dot_name (last_component p) then (Inr (), files')
               else (Inr (), files'(p \<mapsto> Dir))))"

definition fs_write :: "fs \<Rightarrow> string \<Rightarrow> string \<Rightarrow> fs" where
  "fs_write files p s =
     (case files p of
        Some (File c) \<Rightarrow> files(p \<mapsto> File (c @ s))
      | _ \<Rightarrow> files)"

fun digits :: "nat \<Rightarrow> string" where
  "digits n =
     (if n < 10 then [''0123456789'' ! n]
      else digits (n div 10) @ [''0123456789'' ! (n mod 10)])"

definition str_int :: "int \<Rightarrow> string" where
  "str_int i = (if i < 0 then CHR ''-'' # digits (nat (- i)) else digits (nat i))"

text \<open>
  \<^verbatim>\<open>csv.writer(f)\<close> with the default dialect: fields joined by a comma, the record
  ended by CR LF; \<^verbatim>\<open>None\<close> is written as the empty string, any other non-string by
  \<^verbatim>\<open>str\<close>; a field holding a comma, a double quote, CR or LF is enclosed in double
  quotes with its double quotes doubled; a record of one empty field is written as
  two double quotes. \<open>str_float\<close> is \<^verbatim>\<open>str\<close> on a float.
\<close>

definition csv_str :: "(real \<Rightarrow> string) \<Rightarrow> pyval \<Rightarrow> string" where
  "csv_str str_float v =
     (case v of
        PNone \<Rightarrow> ''''
      | PInt i \<Rightarrow> str_int i
      | PFloat x \<Rightarrow> str_float x
      | PStr s \<Rightarrow> s)"

definition csv_special :: "char \<Rightarrow> bool" where
  "csv_special c = (c = CHR '','' \<or> c = CHR 0x22 \<or> c = CHR 0x0D \<or> c = CHR 0x0A)"

definition csv_quote :: "string \<Rightarrow> string" where
  "csv_quote s =
     (if list_ex csv_special s
      then CHR 0x22 # concat (map (\<lambda>c. if c = CHR 0x22 then [c, c] else [c]) s) @ [CHR 0x22]
      else s)"

fun join_fields :: "string list \<Rightarrow> string" where
  "join_fields [] = ''''"
| "join_fields [f] = f"
| "join_fields (f # g # fs) = f @ CHR '','' # join_fields (g # fs)"

definition writerow :: "(real \<Rightarrow> string) \<Rightarrow> pyval list \<Rightarrow> string" where
  "writerow str_float r =
     (let record = join_fields (map (\<lambda>v. csv_quote (csv_str str_float v)) r)
      in (if r \<noteq> [] \<and> record = '''' then [CHR 0x22, CHR 0x22] else record)
         @ [CHR 0x0D, CHR 0x0A])"

section \<open>TrainerMetrics\<close>

record TrainerMetrics =
  path :: string
  brain_name :: string
  rows :: "pyval list list"
  time_start_experience_collection :: "real option"
  time_training_start :: real
  last_buffer_length :: "int option"
  last_mean_return :: "real option"
  time_policy_update_start :: "real option"
  delta_last_experience_collection :: "real option"
  delta_policy_update :: "real option"

definition FIELD_NAMES :: "string list" where
  "FIELD_NAMES =
     [''Brain name'', ''Time to update policy'',
      ''Time since start of training'', ''Time for last experience collection'',
      ''Number of experiences used for training'', ''Mean return'']"

text \<open>\<^verbatim>\<open>__init__\<close>; \<open>now\<close> is the reading of \<^verbatim>\<open>time()\<close>.\<close>

definition TrainerMetrics_init :: "string \<Rightarrow> string \<Rightarrow> real \<Rightarrow> TrainerMetrics" where
  "TrainerMetrics_init p name now =
     \<lparr>path = p, brain_name = name, rows = [],
      time_start_experience_collection = None,
      time_training_start = now,
      last_buffer_length = None,
      last_mean_return = None,
      time_policy_update_start = None,
      delta_last_experience_collection = None,
      delta_policy_update = None\<rparr>"

definition start_experience_collection_timer :: "real \<Rightarrow> TrainerMetrics \<Rightarrow> TrainerMetrics" where
  "start_experience_collection_timer now self =
     (if time_start_experience_collection self = None
      then self\<lparr>time_start_experience_collection := Some now\<rparr>
      else self)"

text \<open>\<^verbatim>\<open>time() - None\<close> raises \<^verbatim>\<open>TypeError\<close> before anything is assigned.\<close>

definition end_experience_collection_timer ::
  "real \<Rightarrow> TrainerMetrics \<Rightarrow> (error + unit) \<times> TrainerMetrics" where
  "end_experience_collection_timer now self =
     (case time_start_experience_collection self of
        None \<Rightarrow> (Inl TypeError, self)
      | Some t0 \<Rightarrow>
          (Inr (), self\<lparr>delta_last_experience_collection := Some (now - t0),
                         time_start_experience_collection := None\<rparr>))"

definition start_policy_update_timer :: "int \<Rightarrow> real \<Rightarrow> real \<Rightarrow> TrainerMetrics \<Rightarrow> TrainerMetrics" where
  "start_policy_update_timer number_experiences mean_return now self =
     self\<lparr>last_buffer_length := Some number_experiences,
          last_mean_return := Some mean_return,
          time_policy_update_start := Some now\<rparr>"

text \<open>
  The debug message of \<^verbatim>\<open>end_policy_update\<close>: the format string applies
  \<^verbatim>\<open>{:0.3f}\<close> to the two new durations, to the last collection duration and to the
  mean return, which raises \<^verbatim>\<open>TypeError\<close> on \<^verbatim>\<open>None\<close>; the buffer length goes through
  \<^verbatim>\<open>{}\<close>, which accepts \<^verbatim>\<open>None\<close>.
\<close>

definition policy_update_message :: "TrainerMetrics \<Rightarrow> real \<Rightarrow> real \<Rightarrow> error + message" where
  "policy_update_message self dpu delta_train_start =
     (case delta_last_experience_collection self of
        None \<Rightarrow> Inl TypeError
      | Some dlec \<Rightarrow>
          (case last_mean_return self of
             None \<Rightarrow> Inl TypeError
           | Some ret \<Rightarrow>
               Inr (PolicyUpdateMetrics (brain_name self) dpu delta_train_start dlec
                      (last_buffer_length self) ret)))"

text \<open>
  The generator handed to \<^verbatim>\<open>row.extend\<close>:
  \<^verbatim>\<open>format(c, '.3f') if isinstance(c) is float else c for c in [...]\<close>.
  Each element first evaluates \<^verbatim>\<open>isinstance(c)\<close>, a call with one argument.
\<close>

fun row_cells :: "(real \<Rightarrow> string) \<Rightarrow> pyval list \<Rightarrow> error + pyval list" where
  "row_cells format_3f [] = Inr []"
| "row_cells format_3f (c # cs) =
     (case isinstance [Obj c] of
        Inl e \<Rightarrow> Inl e
      | Inr b \<Rightarrow>
          (case (if is_float b then map_sum id PStr (py_format_3f format_3f c) else Inr c) of
             Inl e \<Rightarrow> Inl e
           | Inr v \<Rightarrow>
               (case row_cells format_3f cs of
                  Inl e \<Rightarrow> Inl e
                | Inr vs \<Rightarrow> Inr (v # vs))))"

definition opt_float :: "real option \<Rightarrow> pyval" where
  "opt_float x = (case x of None \<Rightarrow> PNone | Some r \<Rightarrow> PFloat r)"

definition opt_int :: "int option \<Rightarrow> pyval" where
  "opt_int x = (case x of None \<Rightarrow> PNone | Some i \<Rightarrow> PInt i)"

text \<open>
  \<^verbatim>\<open>end_policy_update\<close>; \<open>now1\<close> and \<open>now2\<close> are the two readings of \<^verbatim>\<open>time()\<close>.
  The row is appended to \<^verbatim>\<open>self.rows\<close> only after \<^verbatim>\<open>row.extend\<close> has returned.
\<close>

definition end_policy_update ::
  "(real \<Rightarrow> string) \<Rightarrow> real \<Rightarrow> real \<Rightarrow> TrainerMetrics \<Rightarrow> logger
     \<Rightarrow> (error + unit) \<times> TrainerMetrics \<times> logger" where
  "end_policy_update format_3f now1 now2 self lg =
     (case time_policy_update_start self of
        None \<Rightarrow> (Inl TypeError, self, lg)
      | Some t0 \<Rightarrow>
          (let dpu = now1 - t0;
               self1 = self\<lparr>delta_policy_update := Some dpu\<rparr>;
               delta_train_start = now2 - time_training_start self1
           in case policy_update_message self1 dpu delta_train_start of
                Inl e \<Rightarrow> (Inl e, self1, lg)
              | Inr msg \<Rightarrow>
                  (let lg1 = lg @ [(DEBUG, msg)]
                   in case row_cells format_3f
                             [PFloat dpu, PFloat delta_train_start,
                              opt_float (delta_last_experience_collection self1),
                              opt_int (last_buffer_length self1),
                              opt_float (last_mean_return self1)] of
                        Inl e \<Rightarrow> (Inl e, self1, lg1)
                      | Inr cells \<Rightarrow>
                          (Inr (),
                           self1\<lparr>rows := rows self1 @ [PStr (brain_name self1) # cells]\<rparr>,
                           lg1))))"

text \<open>The loop \<^verbatim>\<open>for r in self.rows: writer.writerow(r)\<close>.\<close>

fun write_rows :: "(real \<Rightarrow> string) \<Rightarrow> string \<Rightarrow> pyval list list \<Rightarrow> fs \<Rightarrow> fs" where
  "write_rows str_float p [] files = files"
| "write_rows str_float p (r # rs) files =
     write_rows str_float p rs (fs_write files p (writerow str_float r))"

definition write_training_metrics ::
  "(real \<Rightarrow> string) \<Rightarrow> TrainerMetrics \<Rightarrow> fs \<Rightarrow> (error + unit) \<times> TrainerMetrics \<times> fs" where
  "write_training_metrics str_float self files =
     (case open_w files (path self) of
        Inl e \<Rightarrow> (Inl e, self, files)
      | Inr files0 \<Rightarrow>
          (Inr (), self,
           write_rows str_float (path self) (rows self)
             (fs_write files0 (path self) (writerow str_float (map PStr FIELD_NAMES)))))"

section \<open>Trainer\<close>

text \<open>
  The summary writer (\<^verbatim>\<open>tf.summary.FileWriter\<close>) is an external collaborator: it is
  modelled by the events handed to it, queued until \<^verbatim>\<open>flush\<close>. An event is a summary
  of tagged scalar values, or a serialized summary as the tensor runtime returns it.
\<close>

datatype summary = Summary "(string \<times> real) list" | Serialized string

record FileWriter =
  logdir :: string
  queued :: "(summary \<times> int) list"
  flushed :: "(summary \<times> int) list"

definition add_summary :: "FileWriter \<Rightarrow> summary \<Rightarrow> int \<Rightarrow> FileWriter" where
  "add_summary w s step = w\<lparr>queued := queued w @ [(s, step)]\<rparr>"

definition flush :: "FileWriter \<Rightarrow> FileWriter" where
  "flush w = w\<lparr>flushed := flushed w @ queued w, queued := []\<rparr>"

text \<open>
  The fields of a \<^verbatim>\<open>Trainer\<close>. \<^verbatim>\<open>trainer_parameters\<close> is a dict read by key only;
  \<^verbatim>\<open>stats\<close> is a dict that \<^verbatim>\<open>write_summary\<close> iterates, so it keeps its insertion
  order as an association list. The field \<^verbatim>\<open>brain_name\<close> is \<open>trainer_brain_name\<close>
  here. The policy object and the three methods that only delegate to it
  (\<^verbatim>\<open>get_action\<close>, \<^verbatim>\<open>save_model\<close>, \<^verbatim>\<open>export_model\<close>) are outside the model.
\<close>

record Trainer =
  param_keys :: "string list"
  trainer_brain_name :: string
  run_id :: string
  trainer_parameters :: "string \<rightharpoonup> pyval"
  summary_path :: string
  trainer_metrics :: TrainerMetrics
  cumulative_returns_since_policy_update :: "real list"
  is_training :: bool
  stats :: "(string \<times> real list) list"
  summary_writer :: FileWriter

text \<open>
  \<^verbatim>\<open>__init__\<close>. A \<^verbatim>\<open>summary_path\<close> that is not a string raises \<^verbatim>\<open>TypeError\<close> (in
  \<^verbatim>\<open>os.path.exists\<close>, in \<^verbatim>\<open>os.makedirs\<close> or in \<^verbatim>\<open>self.summary_path + '.csv'\<close>) before
  any directory is made. \<^verbatim>\<open>os.makedirs\<close> is called when nothing exists at the path,
  and what it raises ends the construction. The summary writer is taken to be made
  without error.
\<close>

definition Trainer_init ::
  "string \<Rightarrow> (string \<rightharpoonup> pyval) \<Rightarrow> bool \<Rightarrow> string \<Rightarrow> real \<Rightarrow> fs \<Rightarrow> (error + Trainer) \<times> fs" where
  "Trainer_init brain params training rid now files =
     (case params ''summary_path'' of
        None \<Rightarrow> (Inl (KeyError ''summary_path''), files)
      | Some (PStr p) \<Rightarrow>
          (case (if path_exists files p then (Inr (), files) else makedirs files p) of
             (Inl e, files') \<Rightarrow> (Inl e, files')
           | (Inr u, files') \<Rightarrow>
               (Inr \<lparr>param_keys = [],
                     trainer_brain_name = brain,
                     run_id = rid,
                     trainer_parameters = params,
                     summary_path = p,
                     trainer_metrics = TrainerMetrics_init (p @ ''.csv'') brain now,
                     cumulative_returns_since_policy_update = [],
                     is_training = training,
                     stats = [],
                     summary_writer = \<lparr>logdir = p, queued = [], flushed = []\<rparr>\<rparr>,
                files'))
      | Some _ \<Rightarrow> (Inl TypeError, files))"

subsection \<open>The operations a subclass must override\<close>

definition parameters :: "Trainer \<Rightarrow> error + pyval" where
  "parameters self = Inl (UnityTrainerException ''The parameters property was not implemented.'')"

definition graph_scope :: "Trainer \<Rightarrow> error + pyval" where
  "graph_scope self = Inl (UnityTrainerException ''The graph_scope property was not implemented.'')"

definition get_max_steps :: "Trainer \<Rightarrow> error + int" where
  "get_max_steps self =
     Inl (UnityTrainerException ''The get_max_steps property was not implemented.'')"

definition get_step :: "Trainer \<Rightarrow> error + int" where
  "get_step self = Inl (UnityTrainerException ''The get_step property was not implemented.'')"

definition get_last_reward :: "Trainer \<Rightarrow> error + pyval" where
  "get_last_reward self =
     Inl (UnityTrainerException ''The get_last_reward property was not implemented.'')"

definition increment_step_and_update_last_reward :: "Trainer \<Rightarrow> (error + unit) \<times> Trainer" where
  "increment_step_and_update_last_reward self =
     (Inl (UnityTrainerException
        ''The increment_step_and_update_last_reward method was not implemented.''), self)"

definition add_experiences :: "'a \<Rightarrow> 'a \<Rightarrow> 'b \<Rightarrow> Trainer \<Rightarrow> (error + unit) \<times> Trainer" where
  "add_experiences curr_info next_info take_action_outputs self =
     (Inl (UnityTrainerException ''The add_experiences method was not implemented.''), self)"

definition process_experiences :: "'a \<Rightarrow> 'a \<Rightarrow> Trainer \<Rightarrow> (error + unit) \<times> Trainer" where
  "process_experiences current_info next_info self =
     (Inl (UnityTrainerException ''The process_experiences method was not implemented.''), self)"

definition end_episode :: "Trainer \<Rightarrow> (error + unit) \<times> Trainer" where
  "end_episode self =
     (Inl (UnityTrainerException ''The end_episode method was not implemented.''), self)"

definition is_ready_update :: "Trainer \<Rightarrow> error + bool" where
  "is_ready_update self =
     Inl (UnityTrainerException ''The is_ready_update method was not implemented.'')"

definition update_policy :: "Trainer \<Rightarrow> (error + unit) \<times> Trainer" where
  "update_policy self =
     (Inl (UnityTrainerException ''The update_model method was not implemented.''), self)"

text \<open>
  The class of \<^verbatim>\<open>self\<close>: what \<^verbatim>\<open>self.__class__\<close> formats to, and the two properties
  that the methods of \<^verbatim>\<open>Trainer\<close> read through \<^verbatim>\<open>self\<close>. \<open>Trainer_class\<close> is the base
  class itself, with nothing overridden.
\<close>

record trainer_class =
  cls_repr :: string
  cls_get_step :: "Trainer \<Rightarrow> error + int"
  cls_get_max_steps :: "Trainer \<Rightarrow> error + int"

definition Trainer_class :: trainer_class where
  "Trainer_class =
     \<lparr>cls_repr = ''<class 'mlagents.trainers.trainer.Trainer'>'',
      cls_get_step = get_step,
      cls_get_max_steps = get_max_steps\<rparr>"

subsection \<open>check_param_keys\<close>

definition missing_key_message :: "string \<Rightarrow> string \<Rightarrow> string \<Rightarrow> string" where
  "missing_key_message k cls brain =
     ''The hyper-parameter '' @ k @ '' could not be found for the '' @ cls
       @ '' trainer of brain '' @ brain @ ''.''"

fun check_keys :: "string \<Rightarrow> string \<Rightarrow> (string \<rightharpoonup> pyval) \<Rightarrow> string list \<Rightarrow> error + unit" where
  "check_keys cls brain params [] = Inr ()"
| "check_keys cls brain params (k # ks) =
     (if params k = None
      then Inl (UnityTrainerException (missing_key_message k cls brain))
      else check_keys cls brain params ks)"

definition check_param_keys :: "trainer_class \<Rightarrow> Trainer \<Rightarrow> (error + unit) \<times> Trainer" where
  "check_param_keys cls self =
     (check_keys (cls_repr cls) (trainer_brain_name self) (trainer_parameters self)
        (param_keys self),
      self)"

subsection \<open>write_summary\<close>

text \<open>\<^verbatim>\<open>np.mean\<close> and \<^verbatim>\<open>np.std\<close> of a list of samples.\<close>

definition np_mean :: "real list \<Rightarrow> real" where
  "np_mean xs = sum_list xs / real (length xs)"

definition np_std :: "real list \<Rightarrow> real" where
  "np_std xs = sqrt (np_mean (map (\<lambda>x. (x - np_mean xs)\<^sup>2) xs))"

text \<open>
  The conversion of an int to a float, as \<^verbatim>\<open>int % float\<close> does it first: the nearest
  double, a tie going to the even significand of 53 bits, and \<^verbatim>\<open>OverflowError\<close> when
  that is beyond the range of a double. An int below \<open>2 ^ 53\<close> in absolute value is
  exact.
\<close>

fun bit_length :: "nat \<Rightarrow> nat" where
  "bit_length n = (if n = 0 then 0 else Suc (bit_length (n div 2)))"

definition float_of_int :: "int \<Rightarrow> error + real" where
  "float_of_int g =
     (let n = nat \<bar>g\<bar>
      in if n < 2 ^ 53 then Inr (real_of_int g)
         else (let e = bit_length n - 53;
                   q = n div 2 ^ e;
                   r = n mod 2 ^ e;
                   q' = (if 2 ^ e < 2 * r \<or> (2 * r = 2 ^ e \<and> odd q) then q + 1 else q);
                   m = q' * 2 ^ e
               in if 2 ^ 1024 \<le> m then Inl OverflowError
                  else Inr (if g < 0 then - real m else real m)))"

text \<open>
  \<^verbatim>\<open>global_step % freq == 0\<close> for an int \<^verbatim>\<open>global_step\<close>: a zero divisor raises
  \<^verbatim>\<open>ZeroDivisionError\<close>, a divisor that is no number raises \<^verbatim>\<open>TypeError\<close>. With a
  float divisor the step is converted to a float first; the remainder of two floats is
  exact, so it is zero when the quotient is an integer.
\<close>

definition mod_is_zero :: "int \<Rightarrow> pyval \<Rightarrow> error + bool" where
  "mod_is_zero g freq =
     (case freq of
        PInt f \<Rightarrow> if f = 0 then Inl ZeroDivisionError else Inr (g mod f = 0)
      | PFloat f \<Rightarrow>
          (case float_of_int g of
             Inl e \<Rightarrow> Inl e
           | Inr x \<Rightarrow> if f = 0 then Inl ZeroDivisionError else Inr (frac (x / f) = 0))
      | _ \<Rightarrow> Inl TypeError)"

text \<open>
  \<^verbatim>\<open>"Training." if self.is_training and self.get_step <= self.get_max_steps
  else "Not Training."\<close>: the two properties are read only when \<^verbatim>\<open>is_training\<close> is set.
\<close>

definition training_status :: "trainer_class \<Rightarrow> Trainer \<Rightarrow> error + string" where
  "training_status cls self =
     (if is_training self
      then (case cls_get_step cls self of
              Inl e \<Rightarrow> Inl e
            | Inr step \<Rightarrow>
                (case cls_get_max_steps cls self of
                   Inl e \<Rightarrow> Inl e
                 | Inr max_steps \<Rightarrow>
                     Inr (if step \<le> max_steps then ''Training.'' else ''Not Training.'')))
      else Inr ''Not Training.'')"

text \<open>
  The message of the summary: \<^verbatim>\<open>self.stats['Environment/Cumulative Reward']\<close> raises
  \<^verbatim>\<open>KeyError\<close> for a missing key; with samples the message carries their mean and
  standard deviation, without samples it says that no episode was completed.
\<close>

definition reward_message :: "trainer_class \<Rightarrow> Trainer \<Rightarrow> real \<Rightarrow> string \<Rightarrow> error + message" where
  "reward_message cls self delta_train_start status =
     (case map_of (stats self) ''Environment/Cumulative Reward'' of
        None \<Rightarrow> Inl (KeyError ''Environment/Cumulative Reward'')
      | Some rs \<Rightarrow>
          if length rs > 0
          then (case cls_get_step cls self of
                  Inl e \<Rightarrow> Inl e
                | Inr step \<Rightarrow>
                    (case cls_get_max_steps cls self of
                       Inl e \<Rightarrow> Inl e
                     | Inr max_steps \<Rightarrow>
                         Inr (SummaryStats (run_id self) (trainer_brain_name self)
                                (min step max_steps) delta_train_start
                                (np_mean rs) (np_std rs) status)))
          else (case cls_get_step cls self of
                  Inl e \<Rightarrow> Inl e
                | Inr step \<Rightarrow>
                    Inr (NoEpisode (run_id self) (trainer_brain_name self) step status)))"

text \<open>
  The loop \<^verbatim>\<open>for key in self.stats\<close>: the keys are those the dict had when the loop
  started; each key is looked up in the dict as it is then, and a key with samples adds
  its mean to the summary and is reset to the empty list.
\<close>

fun summary_loop ::
  "string list \<Rightarrow> (string \<times> real list) list \<Rightarrow> (string \<times> real) list
     \<Rightarrow> error option \<times> (string \<times> real list) list \<times> (string \<times> real) list" where
  "summary_loop [] st summary = (None, st, summary)"
| "summary_loop (key # keys) st summary =
     (case map_of st key of
        None \<Rightarrow> (Some (KeyError key), st, summary)
      | Some xs \<Rightarrow>
          if length xs > 0
          then summary_loop keys (AList.update key [] st) (summary @ [(key, np_mean xs)])
          else summary_loop keys st summary)"

definition write_summary ::
  "trainer_class \<Rightarrow> int \<Rightarrow> real \<Rightarrow> int \<Rightarrow> Trainer \<Rightarrow> logger
     \<Rightarrow> (error + unit) \<times> Trainer \<times> logger" where
  "write_summary cls global_step delta_train_start lesson_num self lg =
     (case trainer_parameters self ''summary_freq'' of
        None \<Rightarrow> (Inl (KeyError ''summary_freq''), self, lg)
      | Some freq \<Rightarrow>
          (case mod_is_zero global_step freq of
             Inl e \<Rightarrow> (Inl e, self, lg)
           | Inr z \<Rightarrow>
               if z \<and> global_step \<noteq> 0
               then (case training_status cls self of
                       Inl e \<Rightarrow> (Inl e, self, lg)
                     | Inr status \<Rightarrow>
                         (case reward_message cls self delta_train_start status of
                            Inl e \<Rightarrow> (Inl e, self, lg)
                          | Inr msg \<Rightarrow>
                              (case summary_loop (map fst (stats self)) (stats self) [] of
                                 (Some e, st, summary) \<Rightarrow>
                                   (Inl e, self\<lparr>stats := st\<rparr>, lg @ [(INFO, msg)])
                               | (None, st, summary) \<Rightarrow>
                                   (case cls_get_step cls (self\<lparr>stats := st\<rparr>) of
                                      Inl e \<Rightarrow> (Inl e, self\<lparr>stats := st\<rparr>, lg @ [(INFO, msg)])
                                    | Inr step \<Rightarrow>
                                        (Inr (),
                                         self\<lparr>stats := st,
                                              summary_writer :=
                                                flush (add_summary (summary_writer self)
                                                  (Summary (summary @
                                                     [(''Environment/Lesson'',
                                                       real_of_int lesson_num)]))
                                                  step)\<rparr>,
                                         lg @ [(INFO, msg)])))))
               else (Inr (), self, lg)))"

subsection \<open>write_tensorboard_text\<close>

text \<open>
  The body of the \<^verbatim>\<open>try\<close>: \<open>run_text\<close> stands for the tensor runtime (session, text
  summary operation, \<^verbatim>\<open>sess.run\<close>), which returns the serialized summary or fails; the
  summary is then added to the writer under \<^verbatim>\<open>self.get_step\<close>. The bare \<^verbatim>\<open>except\<close>
  catches whatever the body raises, and logs.
\<close>

definition write_tensorboard_text_try ::
  "('k \<Rightarrow> 'd \<Rightarrow> error + string) \<Rightarrow> trainer_class \<Rightarrow> 'k \<Rightarrow> 'd \<Rightarrow> Trainer \<Rightarrow> error + Trainer" where
  "write_tensorboard_text_try run_text cls key input_dict self =
     (case run_text key input_dict of
        Inl e \<Rightarrow> Inl e
      | Inr s \<Rightarrow>
          (case cls_get_step cls self of
             Inl e \<Rightarrow> Inl e
           | Inr step \<Rightarrow>
               Inr (self\<lparr>summary_writer :=
                          add_summary (summary_writer self) (Serialized s) step\<rparr>)))"

definition write_tensorboard_text ::
  "('k \<Rightarrow> 'd \<Rightarrow> error + string) \<Rightarrow> trainer_class \<Rightarrow> 'k \<Rightarrow> 'd \<Rightarrow> Trainer \<Rightarrow> logger
     \<Rightarrow> (error + unit) \<times> Trainer \<times> logger" where
  "write_tensorboard_text run_text cls key input_dict self lg =
     (case write_tensorboard_text_try run_text cls key input_dict self of
        Inl e \<Rightarrow> (Inr (), self, lg @ [(INFO, CannotWriteText)])
      | Inr self' \<Rightarrow> (Inr (), self', lg))"

subsection \<open>A concrete trainer and a concrete subclass\<close>

text \<open>
  The trainer that \<^verbatim>\<open>Trainer(brain, {'summary_path': 's', 'summary_freq': 5}, True, 'run')\<close>
  constructs for the brain \<^verbatim>\<open>B\<close> at clock reading 0, and a subclass whose
  \<^verbatim>\<open>get_step\<close> is 10 and whose \<^verbatim>\<open>get_max_steps\<close> is 100.
\<close>

definition example_parameters :: "string \<rightharpoonup> pyval" where
  "example_parameters = [''summary_path'' \<mapsto> PStr ''s'', ''summary_freq'' \<mapsto> PInt 5]"

definition example_trainer :: Trainer where
  "example_trainer =
     \<lparr>param_keys = [],
      trainer_brain_name = ''B'',
      run_id = ''run'',
      trainer_parameters = example_parameters,
      summary_path = ''s'',
      trainer_metrics = TrainerMetrics_init ''s.csv'' ''B'' 0,
      cumulative_returns_since_policy_update = [],
      is_training = True,
      stats = [],
      summary_writer = \<lparr>logdir = ''s'', queued = [], flushed = []\<rparr>\<rparr>"

definition example_class :: trainer_class where
  "example_class =
     \<lparr>cls_repr = ''<class 'mlagents.trainers.ppo.trainer.PPOTrainer'>'',
      cls_get_step = (\<lambda>self. Inr 10),
      cls_get_max_steps = (\<lambda>self. Inr 100)\<rparr>"

section \<open>Properties of TrainerMetrics\<close>

lemma fold_start_experience_collection_timer:
  "time_start_experience_collection self \<noteq> None \<Longrightarrow>
     fold start_experience_collection_timer ts self = self"
  by (induction ts) (auto simp add: start_experience_collection_timer_def)

text \<open>
  Claim C4. In a run of consecutive calls of \<^verbatim>\<open>start_experience_collection_timer\<close>
  with no \<^verbatim>\<open>end_experience_collection_timer\<close> between them (readings \<open>t0\<close>, then
  \<open>ts\<close>), every call after the first leaves the whole recorder as the first call left
  it. The first call sets the marker to its reading when no collection was in progress,
  and changes nothing otherwise.
\<close>

theorem start_experience_collection_timer_idempotent:
  "fold start_experience_collection_timer ts (start_experience_collection_timer t0 self)
     = start_experience_collection_timer t0 self
   \<and> (time_start_experience_collection self = None \<longrightarrow>
        start_experience_collection_timer t0 self
          = self\<lparr>time_start_experience_collection := Some t0\<rparr>)
   \<and> (time_start_experience_collection self \<noteq> None \<longrightarrow>
        start_experience_collection_timer t0 self = self)"
proof -
  have "time_start_experience_collection (start_experience_collection_timer t0 self) \<noteq> None"
    by (simp add: start_experience_collection_timer_def)
  then have "fold start_experience_collection_timer ts (start_experience_collection_timer t0 self)
     = start_experience_collection_timer t0 self"
    by (rule fold_start_experience_collection_timer)
  then show ?thesis
    by (auto simp add: start_experience_collection_timer_def)
qed

theorem start_experience_collection_timer_idempotent_witness:
  "fold start_experience_collection_timer [2, 3]
     (start_experience_collection_timer 1 (TrainerMetrics_init ''s.csv'' ''B'' 0))
     = (TrainerMetrics_init ''s.csv'' ''B'' 0)\<lparr>time_start_experience_collection := Some 1\<rparr>
   \<and> time_start_experience_collection (TrainerMetrics_init ''s.csv'' ''B'' 0) = None"
  using start_experience_collection_timer_idempotent
          [of "[2, 3]" 1 "TrainerMetrics_init ''s.csv'' ''B'' 0"]
  by (simp add: TrainerMetrics_init_def start_experience_collection_timer_def)

text \<open>
  Claim C5. With a start marker \<open>t0\<close> present, \<^verbatim>\<open>end_experience_collection_timer\<close>
  read at \<open>now\<close> returns, stores \<open>now - t0\<close> as the last collection duration and clears
  the marker, so that the next \<^verbatim>\<open>start_experience_collection_timer\<close> sets the marker to
  its own reading. With no marker it raises \<^verbatim>\<open>TypeError\<close> and stores nothing.
\<close>

theorem end_experience_collection_timer_spec:
  "(time_start_experience_collection self = Some t0 \<longrightarrow>
      end_experience_collection_timer now self
        = (Inr (), self\<lparr>delta_last_experience_collection := Some (now - t0),
                        time_start_experience_collection := None\<rparr>)
      \<and> time_start_experience_collection
           (start_experience_collection_timer t1
              (snd (end_experience_collection_timer now self))) = Some t1)
   \<and> (time_start_experience_collection self = None \<longrightarrow>
        end_experience_collection_timer now self = (Inl TypeError, self))"
  by (simp add: end_experience_collection_timer_def start_experience_collection_timer_def)

theorem end_experience_collection_timer_spec_witness:
  "end_experience_collection_timer 5
     (start_experience_collection_timer 2 (TrainerMetrics_init ''s.csv'' ''B'' 0))
     = (Inr (), (TrainerMetrics_init ''s.csv'' ''B'' 0)
                  \<lparr>delta_last_experience_collection := Some 3\<rparr>)
   \<and> end_experience_collection_timer 5 (TrainerMetrics_init ''s.csv'' ''B'' 0)
     = (Inl TypeError, TrainerMetrics_init ''s.csv'' ''B'' 0)"
  using end_experience_collection_timer_spec
          [of "start_experience_collection_timer 2 (TrainerMetrics_init ''s.csv'' ''B'' 0)" 2 5 7]
        end_experience_collection_timer_spec
          [of "TrainerMetrics_init ''s.csv'' ''B'' 0" 2 5 7]
  by (simp add: TrainerMetrics_init_def start_experience_collection_timer_def)

subsection \<open>end_policy_update and the rows\<close>

text \<open>
  \<^verbatim>\<open>isinstance(c)\<close> is a call with one argument, so the generator raises
  \<^verbatim>\<open>TypeError\<close> at its first element: \<^verbatim>\<open>row.extend\<close> never returns, and the
  statement \<^verbatim>\<open>self.rows.append(row)\<close> after it is never reached.
\<close>

lemma row_cells_raises: "cs \<noteq> [] \<Longrightarrow> row_cells f cs = Inl TypeError"
  by (cases cs) simp_all

lemma end_policy_update_raises:
  "\<exists>e. fst (end_policy_update f now1 now2 self lg) = Inl e"
  by (simp add: end_policy_update_def Let_def row_cells_raises split: option.split sum.split)

lemma end_policy_update_rows:
  "rows (fst (snd (end_policy_update f now1 now2 self lg))) = rows self"
  by (simp add: end_policy_update_def Let_def row_cells_raises split: option.split sum.split)

text \<open>
  Claim C1 says that after N calls of \<^verbatim>\<open>end_policy_update\<close> the recorder holds N rows.
  The code does not do this for N = 1: on a new recorder, after one collection interval
  and \<^verbatim>\<open>start_policy_update_timer(10, 1.5)\<close>, the call of \<^verbatim>\<open>end_policy_update\<close> raises
  \<^verbatim>\<open>TypeError\<close> and the rows are still empty.
\<close>

theorem end_policy_update_one_cycle:
  "fst (end_policy_update f 4 5
          (start_policy_update_timer 10 (3 / 2) 3
            (snd (end_experience_collection_timer 2
              (start_experience_collection_timer 1 (TrainerMetrics_init ''s.csv'' ''B'' 0)))))
          []) = Inl TypeError
   \<and> rows (fst (snd (end_policy_update f 4 5
          (start_policy_update_timer 10 (3 / 2) 3
            (snd (end_experience_collection_timer 2
              (start_experience_collection_timer 1 (TrainerMetrics_init ''s.csv'' ''B'' 0)))))
          []))) = []"
  by (simp add: end_policy_update_def Let_def policy_update_message_def
        start_policy_update_timer_def end_experience_collection_timer_def
        start_experience_collection_timer_def TrainerMetrics_init_def
        opt_float_def opt_int_def)

subsection \<open>write_training_metrics\<close>




lemma open_w_raises_iff:
  "(\<exists>e. open_w files p = Inl e)
     \<longleftrightarrow> CHR 0x00 \<in> set p \<or> dot_name (last_component p) \<or> files p = Some Dir
           \<or> (\<exists>d\<in>set (ancestors p). files d \<noteq> Some Dir)"
  by (auto simp add: open_w_def list_all_iff)













text \<open>
  Claim C8. Writing the metrics file returns the recorder as it was, so the rows after
  the write are the rows before it. No other operation of the recorder removes a row
  either: the timers leave the rows as they are, and \<^verbatim>\<open>end_policy_update\<close> at most adds
  rows at the end.
\<close>

theorem write_training_metrics_keeps_rows:
  "fst (snd (write_training_metrics sf self files)) = self
   \<and> rows (fst (snd (write_training_metrics sf self files))) = rows self
   \<and> rows (start_experience_collection_timer now self) = rows self
   \<and> rows (snd (end_experience_collection_timer now self)) = rows self
   \<and> rows (start_policy_update_timer n ret now self) = rows self
   \<and> (\<exists>ys. rows (fst (snd (end_policy_update f now now2 self lg))) = rows self @ ys)"
proof -
  have "fst (snd (write_training_metrics sf self files)) = self"
    by (simp add: write_training_metrics_def split: sum.split)
  moreover have "rows (start_experience_collection_timer now self) = rows self"
    by (simp add: start_experience_collection_timer_def)
  moreover have "rows (snd (end_experience_collection_timer now self)) = rows self"
    by (simp add: end_experience_collection_timer_def split: option.split)
  moreover have "rows (start_policy_update_timer n ret now self) = rows self"
    by (simp add: start_policy_update_timer_def)
  moreover have "\<exists>ys. rows (fst (snd (end_policy_update f now now2 self lg))) = rows self @ ys"
    by (simp add: end_policy_update_def Let_def split: option.split sum.split)
  ultimately show ?thesis by simp
qed

theorem write_training_metrics_keeps_rows_witness:
  "rows (fst (snd (write_training_metrics (\<lambda>x. [])
       ((TrainerMetrics_init ''s.csv'' ''B'' 0)
          \<lparr>rows := [[PStr ''B'', PStr ''0.100'', PStr ''2.000'', PStr ''1.000'', PInt 10,
                      PStr ''1.500'']]\<rparr>)
       Map.empty)))
     = [[PStr ''B'', PStr ''0.100'', PStr ''2.000'', PStr ''1.000'', PInt 10, PStr ''1.500'']]"
  using write_training_metrics_keeps_rows
          [of "\<lambda>x. []"
              "(TrainerMetrics_init ''s.csv'' ''B'' 0)
                 \<lparr>rows := [[PStr ''B'', PStr ''0.100'', PStr ''2.000'', PStr ''1.000'', PInt 10,
                             PStr ''1.500'']]\<rparr>"
              Map.empty]
  by (simp add: TrainerMetrics_init_def)

section \<open>Properties of Trainer\<close>

subsection \<open>check_param_keys\<close>

lemma check_keys_all_present:
  "\<forall>k\<in>set ks. params k \<noteq> None \<Longrightarrow> check_keys cls brain params ks = Inr ()"
  by (induction ks) auto

lemma check_keys_first_missing:
  "\<forall>k\<in>set ks1. params k \<noteq> None \<Longrightarrow> params k = None \<Longrightarrow>
     check_keys cls brain params (ks1 @ k # ks2)
       = Inl (UnityTrainerException (missing_key_message k cls brain))"
  by (induction ks1) auto

lemma first_missing_key:
  "\<exists>k\<in>set ks. params k = None \<Longrightarrow>
     \<exists>ks1 k ks2. ks = ks1 @ k # ks2 \<and> (\<forall>k'\<in>set ks1. params k' \<noteq> None) \<and> params k = None"
proof (induction ks)
  case Nil
  then show ?case by simp
next
  case (Cons a ks)
  show ?case
  proof (cases "params a = None")
    case True
    then have "a # ks = [] @ a # ks \<and> (\<forall>k'\<in>set []. params k' \<noteq> None) \<and> params a = None"
      by simp
    then show ?thesis by blast
  next
    case False
    with Cons.prems have "\<exists>k\<in>set ks. params k = None" by auto
    from Cons.IH [OF this] obtain ks1 k ks2
      where "ks = ks1 @ k # ks2" "\<forall>k'\<in>set ks1. params k' \<noteq> None" "params k = None"
      by blast
    with False
    have "a # ks = (a # ks1) @ k # ks2 \<and> (\<forall>k'\<in>set (a # ks1). params k' \<noteq> None)
            \<and> params k = None"
      by simp
    then show ?thesis by blast
  qed
qed

text \<open>
  Claim C6. If some key of \<^verbatim>\<open>param_keys\<close> is not in \<^verbatim>\<open>trainer_parameters\<close>,
  \<^verbatim>\<open>check_param_keys\<close> raises \<^verbatim>\<open>UnityTrainerException\<close> with the message
  "The hyper-parameter K could not be found for the CLASS trainer of brain BRAIN.",
  where K is a declared key that is missing (the first one in the order of declaration),
  CLASS the class of the trainer and BRAIN its brain name. If every declared key is
  present it returns. In both cases the trainer is left as it was.
\<close>

theorem check_param_keys_spec:
  "((\<exists>k\<in>set (param_keys self). trainer_parameters self k = None) \<longrightarrow>
      (\<exists>ks1 k ks2.
          param_keys self = ks1 @ k # ks2
        \<and> (\<forall>k'\<in>set ks1. trainer_parameters self k' \<noteq> None)
        \<and> trainer_parameters self k = None
        \<and> check_param_keys cls self
            = (Inl (UnityTrainerException
                 (''The hyper-parameter '' @ k @ '' could not be found for the ''
                    @ cls_repr cls @ '' trainer of brain '' @ trainer_brain_name self
                    @ ''.'')),
               self)))
   \<and> ((\<forall>k\<in>set (param_keys self). trainer_parameters self k \<noteq> None) \<longrightarrow>
        check_param_keys cls self = (Inr (), self))"
proof (intro conjI impI)
  assume "\<exists>k\<in>set (param_keys self). trainer_parameters self k = None"
  from first_missing_key [OF this] obtain ks1 k ks2
    where ks: "param_keys self = ks1 @ k # ks2"
      and pre: "\<forall>k'\<in>set ks1. trainer_parameters self k' \<noteq> None"
      and miss: "trainer_parameters self k = None"
    by blast
  have "check_param_keys cls self
      = (Inl (UnityTrainerException
           (missing_key_message k (cls_repr cls) (trainer_brain_name self))), self)"
    by (simp add: check_param_keys_def ks check_keys_first_missing [OF pre miss])
  with ks pre miss
  show "\<exists>ks1 k ks2.
          param_keys self = ks1 @ k # ks2
        \<and> (\<forall>k'\<in>set ks1. trainer_parameters self k' \<noteq> None)
        \<and> trainer_parameters self k = None
        \<and> check_param_keys cls self
            = (Inl (UnityTrainerException
                 (''The hyper-parameter '' @ k @ '' could not be found for the ''
                    @ cls_repr cls @ '' trainer of brain '' @ trainer_brain_name self
                    @ ''.'')),
               self)"
    unfolding missing_key_message_def by blast
next
  assume "\<forall>k\<in>set (param_keys self). trainer_parameters self k \<noteq> None"
  then show "check_param_keys cls self = (Inr (), self)"
    by (simp add: check_param_keys_def check_keys_all_present)
qed

theorem check_param_keys_spec_witness:
  "check_param_keys Trainer_class (example_trainer\<lparr>param_keys := [''summary_freq'', ''gamma'']\<rparr>)
     = (Inl (UnityTrainerException
          ''The hyper-parameter gamma could not be found for the <class 'mlagents.trainers.trainer.Trainer'> trainer of brain B.''),
        example_trainer\<lparr>param_keys := [''summary_freq'', ''gamma'']\<rparr>)
   \<and> check_param_keys Trainer_class
        (example_trainer\<lparr>param_keys := [''summary_freq'', ''summary_path'']\<rparr>)
     = (Inr (), example_trainer\<lparr>param_keys := [''summary_freq'', ''summary_path'']\<rparr>)"
  using check_param_keys_spec
          [of "example_trainer\<lparr>param_keys := [''summary_freq'', ''gamma'']\<rparr>" Trainer_class]
        check_param_keys_spec
          [of "example_trainer\<lparr>param_keys := [''summary_freq'', ''summary_path'']\<rparr>"
              Trainer_class]
  by (simp add: example_trainer_def example_parameters_def Trainer_class_def
        check_param_keys_def missing_key_message_def)

subsection \<open>The base class raises where a subclass must override\<close>

text \<open>
  Claim C7. On an instance of the base class each of the eleven operations that a
  subclass must override raises \<^verbatim>\<open>UnityTrainerException\<close>, whatever the state of the
  trainer and the arguments; none of them returns a value. The two properties that the
  other methods read through \<^verbatim>\<open>self\<close> raise in the same way when the class of
  \<^verbatim>\<open>self\<close> is the base class.
\<close>

theorem base_operations_raise:
  "parameters self = Inl (UnityTrainerException ''The parameters property was not implemented.'')
   \<and> graph_scope self
       = Inl (UnityTrainerException ''The graph_scope property was not implemented.'')
   \<and> get_max_steps self
       = Inl (UnityTrainerException ''The get_max_steps property was not implemented.'')
   \<and> get_step self = Inl (UnityTrainerException ''The get_step property was not implemented.'')
   \<and> get_last_reward self
       = Inl (UnityTrainerException ''The get_last_reward property was not implemented.'')
   \<and> increment_step_and_update_last_reward self
       = (Inl (UnityTrainerException
            ''The increment_step_and_update_last_reward method was not implemented.''), self)
   \<and> add_experiences curr_info next_info take_action_outputs self
       = (Inl (UnityTrainerException ''The add_experiences method was not implemented.''), self)
   \<and> process_experiences current_info next_info' self
       = (Inl (UnityTrainerException ''The process_experiences method was not implemented.''),
          self)
   \<and> end_episode self
       = (Inl (UnityTrainerException ''The end_episode method was not implemented.''), self)
   \<and> is_ready_update self
       = Inl (UnityTrainerException ''The is_ready_update method was not implemented.'')
   \<and> update_policy self
       = (Inl (UnityTrainerException ''The update_model method was not implemented.''), self)
   \<and> cls_get_step Trainer_class self
       = Inl (UnityTrainerException ''The get_step property was not implemented.'')
   \<and> cls_get_max_steps Trainer_class self
       = Inl (UnityTrainerException ''The get_max_steps property was not implemented.'')"
  by (simp add: parameters_def graph_scope_def get_max_steps_def get_step_def
        get_last_reward_def increment_step_and_update_last_reward_def add_experiences_def
        process_experiences_def end_episode_def is_ready_update_def update_policy_def
        Trainer_class_def)

subsection \<open>write_tensorboard_text\<close>

text \<open>
  Claim C9. \<^verbatim>\<open>write_tensorboard_text\<close> returns for every key, every dictionary, every
  trainer, every class of the trainer and every behaviour of the tensor runtime. If the
  runtime fails, or reading \<^verbatim>\<open>self.get_step\<close> fails after it, the failure is caught:
  the call still returns, the trainer is as it was, and the one message
  "Cannot write text summary for Tensorboard..." is added to the log. If nothing
  fails, the serialized summary is handed to the summary writer and nothing is logged.
\<close>

theorem write_tensorboard_text_never_raises:
  "fst (write_tensorboard_text run_text cls key input_dict self lg) = Inr ()
   \<and> ((run_text key input_dict = Inl e \<or> cls_get_step cls self = Inl e) \<longrightarrow>
        write_tensorboard_text run_text cls key input_dict self lg
          = (Inr (), self, lg @ [(INFO, CannotWriteText)]))
   \<and> (run_text key input_dict = Inr s \<and> cls_get_step cls self = Inr step \<longrightarrow>
        write_tensorboard_text run_text cls key input_dict self lg
          = (Inr (),
             self\<lparr>summary_writer := add_summary (summary_writer self) (Serialized s) step\<rparr>,
             lg))"
  by (auto simp add: write_tensorboard_text_def write_tensorboard_text_try_def
        split: sum.split)

theorem write_tensorboard_text_never_raises_witness:
  "write_tensorboard_text (\<lambda>k d. Inl OSError) example_class ''Hyperparameters'' () example_trainer []
     = (Inr (), example_trainer, [(INFO, CannotWriteText)])
   \<and> write_tensorboard_text (\<lambda>k d. Inr ''text'') Trainer_class ''Hyperparameters'' ()
        example_trainer []
     = (Inr (), example_trainer, [(INFO, CannotWriteText)])
   \<and> write_tensorboard_text (\<lambda>k d. Inr ''text'') example_class ''Hyperparameters'' ()
        example_trainer []
     = (Inr (),
        example_trainer\<lparr>summary_writer :=
          \<lparr>logdir = ''s'', queued = [(Serialized ''text'', 10)], flushed = []\<rparr>\<rparr>,
        [])"
  using write_tensorboard_text_never_raises
          [of "\<lambda>k d. Inl OSError" example_class "''Hyperparameters''" "()" example_trainer "[]"
              OSError "''text''" 10]
        write_tensorboard_text_never_raises
          [of "\<lambda>k d. Inr ''text''" Trainer_class "''Hyperparameters''" "()" example_trainer "[]"
              "UnityTrainerException ''The get_step property was not implemented.''" "''text''" 10]
        write_tensorboard_text_never_raises
          [of "\<lambda>k d. Inr ''text''" example_class "''Hyperparameters''" "()" example_trainer "[]"
              OSError "''text''" 10]
  by (simp add: example_class_def Trainer_class_def get_step_def add_summary_def
        example_trainer_def)

subsection \<open>write_summary\<close>

lemma Trainer_init_example:
  "Trainer_init ''B'' example_parameters True ''run'' 0 Map.empty
     = (Inr example_trainer, [''s'' \<mapsto> Dir])"
  by (simp add: Trainer_init_def makedirs_def path_exists_def ancestors_def
        last_component_def dot_name_def is_file_def
        example_parameters_def example_trainer_def)

lemma mod_is_zero_int:
  "mod_is_zero g (PInt f) = Inr True \<longleftrightarrow> f \<noteq> 0 \<and> g mod f = 0"
  by (simp add: mod_is_zero_def)

lemma float_of_int_exact: "\<bar>g\<bar> < 2 ^ 53 \<Longrightarrow> float_of_int g = Inr (real_of_int g)"
  by (simp add: float_of_int_def Let_def nat_less_iff)

lemma mod_is_zero_defined:
  "(\<exists>z. mod_is_zero g freq = Inr z)
     \<longleftrightarrow> (\<exists>f. freq = PInt f \<and> f \<noteq> 0)
           \<or> (\<exists>x y. freq = PFloat x \<and> x \<noteq> 0 \<and> float_of_int g = Inr y)"
  by (cases freq) (auto simp add: mod_is_zero_def split: sum.splits)

text \<open>
  The loop over the keys of the statistics: it ends without an error, keeps the keys and
  their order, leaves every key with the empty list, and adds to the summary exactly
  the means of the keys that had samples.
\<close>

lemma summary_loop_spec:
  "set ks \<subseteq> fst ` set st \<Longrightarrow>
     \<exists>st' zs. summary_loop ks st acc = (None, st', acc @ zs)
       \<and> map fst st' = map fst st
       \<and> (\<forall>k. map_of st' k
              = (if k \<in> set ks \<and> map_of st k \<noteq> None then Some [] else map_of st k))
       \<and> set zs = {(k, np_mean xs) | k xs. k \<in> set ks \<and> map_of st k = Some xs \<and> xs \<noteq> []}"
proof (induction ks arbitrary: st acc)
  case Nil
  then show ?case by simp
next
  case (Cons key keys)
  from Cons.prems have "key \<in> fst ` set st" and sub: "set keys \<subseteq> fst ` set st" by auto
  then obtain xs where xs: "map_of st key = Some xs"
    by (metis map_of_eq_None_iff not_Some_eq)
  show ?case
  proof (cases "xs = []")
    case True
    from Cons.IH [OF sub, of acc] obtain st' zs
      where r: "summary_loop keys st acc = (None, st', acc @ zs)"
        and k: "map fst st' = map fst st"
        and m: "\<forall>k. map_of st' k
              = (if k \<in> set keys \<and> map_of st k \<noteq> None then Some [] else map_of st k)"
        and z: "set zs = {(k, np_mean xs) | k xs. k \<in> set keys \<and> map_of st k = Some xs \<and> xs \<noteq> []}"
      by blast
    have "summary_loop (key # keys) st acc = (None, st', acc @ zs)"
      using xs True r by simp
    moreover have "\<forall>k. map_of st' k
              = (if k \<in> set (key # keys) \<and> map_of st k \<noteq> None then Some [] else map_of st k)"
      using m xs True by auto
    moreover have "set zs = {(k, np_mean xs) | k xs. k \<in> set (key # keys) \<and> map_of st k = Some xs \<and> xs \<noteq> []}"
      using z xs True by auto
    ultimately show ?thesis using k by blast
  next
    case False
    let ?st = "AList.update key [] st"
    have sub': "set keys \<subseteq> fst ` set ?st"
      using sub by (auto simp add: AList.dom_update)
    have keys': "map fst ?st = map fst st"
      using \<open>key \<in> fst ` set st\<close> by (simp add: AList.update_keys)
    have mo: "map_of ?st = (map_of st)(key \<mapsto> [])"
      by (rule AList.update_conv')
    from Cons.IH [OF sub', of "acc @ [(key, np_mean xs)]"] obtain st' zs
      where r: "summary_loop keys ?st (acc @ [(key, np_mean xs)])
                  = (None, st', (acc @ [(key, np_mean xs)]) @ zs)"
        and k: "map fst st' = map fst ?st"
        and m: "\<forall>k. map_of st' k
              = (if k \<in> set keys \<and> map_of ?st k \<noteq> None then Some [] else map_of ?st k)"
        and z: "set zs = {(k, np_mean xs) | k xs. k \<in> set keys \<and> map_of ?st k = Some xs \<and> xs \<noteq> []}"
      by blast
    have "summary_loop (key # keys) st acc = (None, st', acc @ ((key, np_mean xs) # zs))"
      using xs False r by simp
    moreover have "map fst st' = map fst st" using k keys' by simp
    moreover have "\<forall>k. map_of st' k
              = (if k \<in> set (key # keys) \<and> map_of st k \<noteq> None then Some [] else map_of st k)"
      using m xs by (auto simp add: mo)
    moreover have "set ((key, np_mean xs) # zs)
         = {(k, np_mean xs) | k xs. k \<in> set (key # keys) \<and> map_of st k = Some xs \<and> xs \<noteq> []}"
    proof -
      have z': "set zs = {(k, np_mean ys) | k ys.
                  k \<in> set keys \<and> k \<noteq> key \<and> map_of st k = Some ys \<and> ys \<noteq> []}"
        unfolding z mo by (rule Collect_cong) auto
      have "{(k, np_mean ys) | k ys. k \<in> set (key # keys) \<and> map_of st k = Some ys \<and> ys \<noteq> []}
          = insert (key, np_mean xs)
              {(k, np_mean ys) | k ys.
                  k \<in> set keys \<and> k \<noteq> key \<and> map_of st k = Some ys \<and> ys \<noteq> []}"
        (is "?A = insert ?p ?B")
      proof (rule set_eqI)
        fix p
        show "p \<in> ?A \<longleftrightarrow> p \<in> insert ?p ?B"
        proof
          assume "p \<in> ?A"
          then obtain k ys where p: "p = (k, np_mean ys)" and kin: "k \<in> set (key # keys)"
            and my: "map_of st k = Some ys" and ne: "ys \<noteq> []" by blast
          show "p \<in> insert ?p ?B"
          proof (cases "k = key")
            case True
            with my xs have "ys = xs" by simp
            with p True show ?thesis by simp
          next
            case False
            with kin have "k \<in> set keys" by simp
            with p my ne False show ?thesis by blast
          qed
        next
          assume "p \<in> insert ?p ?B"
          then consider "p = ?p" | "p \<in> ?B" by blast
          then show "p \<in> ?A"
          proof cases
            case 1
            have "key \<in> set (key # keys)" by simp
            with 1 xs False show ?thesis by blast
          next
            case 2
            then obtain k ys where "p = (k, np_mean ys)" "k \<in> set keys"
              "map_of st k = Some ys" "ys \<noteq> []" by blast
            moreover then have "k \<in> set (key # keys)" by simp
            ultimately show ?thesis by blast
          qed
        qed
      qed
      with z' show ?thesis by simp
    qed
    ultimately show ?thesis by blast
  qed
qed

lemma write_summary_not_triggered:
  "trainer_parameters self ''summary_freq'' = Some freq \<Longrightarrow>
   mod_is_zero g freq = Inr z \<Longrightarrow> \<not> (z \<and> g \<noteq> 0) \<Longrightarrow>
     write_summary cls g delta lesson self lg = (Inr (), self, lg)"
  by (auto simp add: write_summary_def)

lemma write_summary_triggered:
  assumes freq: "trainer_parameters self ''summary_freq'' = Some freq"
    and trig: "mod_is_zero g freq = Inr True" "g \<noteq> 0"
    and step: "\<forall>s. cls_get_step cls s = Inr step"
    and maxs: "\<forall>s. cls_get_max_steps cls s = Inr max_steps"
    and rew: "map_of (stats self) ''Environment/Cumulative Reward'' = Some rs"
  shows "\<exists>st' msg vals.
           write_summary cls g delta lesson self lg
             = (Inr (),
                self\<lparr>stats := st',
                     summary_writer := (summary_writer self)
                       \<lparr>flushed := flushed (summary_writer self) @ queued (summary_writer self)
                          @ [(Summary (vals @ [(''Environment/Lesson'', real_of_int lesson)]),
                              step)],
                        queued := []\<rparr>\<rparr>,
                lg @ [(INFO, msg)])
         \<and> map fst st' = map fst (stats self)
         \<and> (\<forall>k. map_of st' k = (if map_of (stats self) k = None then None else Some []))
         \<and> set vals = {(k, np_mean xs) | k xs. map_of (stats self) k = Some xs \<and> xs \<noteq> []}"
proof -
  have "set (map fst (stats self)) \<subseteq> fst ` set (stats self)" by simp
  from summary_loop_spec [OF this, of "[]"] obtain st' zs
    where r: "summary_loop (map fst (stats self)) (stats self) [] = (None, st', zs)"
      and k: "map fst st' = map fst (stats self)"
      and m: "\<forall>k. map_of st' k
            = (if k \<in> set (map fst (stats self)) \<and> map_of (stats self) k \<noteq> None
               then Some [] else map_of (stats self) k)"
      and z: "set zs = {(k, np_mean xs) | k xs.
                k \<in> set (map fst (stats self)) \<and> map_of (stats self) k = Some xs \<and> xs \<noteq> []}"
    by auto
  have dom: "map_of (stats self) k \<noteq> None \<Longrightarrow> k \<in> set (map fst (stats self))" for k
    by (simp add: map_of_eq_None_iff)
  have m': "\<forall>k. map_of st' k = (if map_of (stats self) k = None then None else Some [])"
    using m dom by auto
  have z': "set zs = {(k, np_mean xs) | k xs. map_of (stats self) k = Some xs \<and> xs \<noteq> []}"
    unfolding z using dom by (intro Collect_cong) auto
  have gs: "cls_get_step cls s = Inr step" for s using step by simp
  have gm: "cls_get_max_steps cls s = Inr max_steps" for s using maxs by simp
  have "\<exists>status. training_status cls self = Inr status"
    by (simp add: training_status_def gs gm)
  then obtain status where st: "training_status cls self = Inr status" by blast
  have "\<exists>msg. reward_message cls self delta status = Inr msg"
    by (simp add: reward_message_def gs gm rew)
  then obtain msg where msg: "reward_message cls self delta status = Inr msg" by blast
  have "write_summary cls g delta lesson self lg
      = (Inr (),
         self\<lparr>stats := st',
              summary_writer := (summary_writer self)
                \<lparr>flushed := flushed (summary_writer self) @ queued (summary_writer self)
                   @ [(Summary (zs @ [(''Environment/Lesson'', real_of_int lesson)]), step)],
                 queued := []\<rparr>\<rparr>,
         lg @ [(INFO, msg)])"
    using freq trig st msg r
    by (simp add: write_summary_def flush_def add_summary_def gs)
  with k m' z' show ?thesis by blast
qed

text \<open>
  Claim C2, as the code has it. \<^verbatim>\<open>write_summary\<close> at \<^verbatim>\<open>global_step = 0\<close> changes
  nothing and logs nothing whenever \<^verbatim>\<open>0 % summary_freq\<close> can be computed (the
  frequency is configured, a number, and not zero). At a \<^verbatim>\<open>global_step\<close> other than 0
  with \<^verbatim>\<open>global_step % summary_freq == 0\<close>, on a trainer whose class implements
  \<^verbatim>\<open>get_step\<close> and \<^verbatim>\<open>get_max_steps\<close> and whose statistics have an entry for
  \<^verbatim>\<open>'Environment/Cumulative Reward'\<close>, the call returns, and one summary is written
  and flushed under the current step: it holds, before the lesson number, exactly the
  means of the keys that had a sample, each tagged with its key. Afterwards every key
  that had a sample holds the empty list, every key that held the empty list still
  does, the keys and their order are as before, and nothing else of the trainer has
  changed.
\<close>

theorem write_summary_spec:
  "(trainer_parameters self ''summary_freq'' = Some freq \<and> mod_is_zero 0 freq = Inr z \<longrightarrow>
      write_summary cls 0 delta lesson self lg = (Inr (), self, lg))
   \<and> (trainer_parameters self ''summary_freq'' = Some freq
        \<and> mod_is_zero g freq = Inr True \<and> g \<noteq> 0
        \<and> (\<forall>s. cls_get_step cls s = Inr step)
        \<and> (\<forall>s. cls_get_max_steps cls s = Inr max_steps)
        \<and> map_of (stats self) ''Environment/Cumulative Reward'' = Some rs \<longrightarrow>
      (\<exists>st' msg vals.
           write_summary cls g delta lesson self lg
             = (Inr (),
                self\<lparr>stats := st',
                     summary_writer := (summary_writer self)
                       \<lparr>flushed := flushed (summary_writer self) @ queued (summary_writer self)
                          @ [(Summary (vals @ [(''Environment/Lesson'', real_of_int lesson)]),
                              step)],
                        queued := []\<rparr>\<rparr>,
                lg @ [(INFO, msg)])
         \<and> map fst st' = map fst (stats self)
         \<and> (\<forall>k xs. map_of (stats self) k = Some xs \<longrightarrow>
                map_of st' k = Some []
              \<and> (xs \<noteq> [] \<longrightarrow> (k, np_mean xs) \<in> set vals)
              \<and> (xs = [] \<longrightarrow> k \<notin> fst ` set vals))
         \<and> (\<forall>k. map_of (stats self) k = None \<longrightarrow> map_of st' k = None)
         \<and> set vals = {(k, np_mean xs) | k xs. map_of (stats self) k = Some xs \<and> xs \<noteq> []}))"
proof (intro conjI impI)
  assume "trainer_parameters self ''summary_freq'' = Some freq \<and> mod_is_zero 0 freq = Inr z"
  then show "write_summary cls 0 delta lesson self lg = (Inr (), self, lg)"
    by (simp add: write_summary_not_triggered)
next
  assume a: "trainer_parameters self ''summary_freq'' = Some freq
        \<and> mod_is_zero g freq = Inr True \<and> g \<noteq> 0
        \<and> (\<forall>s. cls_get_step cls s = Inr step)
        \<and> (\<forall>s. cls_get_max_steps cls s = Inr max_steps)
        \<and> map_of (stats self) ''Environment/Cumulative Reward'' = Some rs"
  then have a1: "trainer_parameters self ''summary_freq'' = Some freq"
    and a2: "mod_is_zero g freq = Inr True" and a3: "g \<noteq> 0"
    and a4: "\<forall>s. cls_get_step cls s = Inr step"
    and a5: "\<forall>s. cls_get_max_steps cls s = Inr max_steps"
    and a6: "map_of (stats self) ''Environment/Cumulative Reward'' = Some rs"
    by simp_all
  from write_summary_triggered [OF a1 a2 a3 a4 a5 a6, of delta lesson lg]
  obtain st' msg vals
    where w: "write_summary cls g delta lesson self lg
             = (Inr (),
                self\<lparr>stats := st',
                     summary_writer := (summary_writer self)
                       \<lparr>flushed := flushed (summary_writer self) @ queued (summary_writer self)
                          @ [(Summary (vals @ [(''Environment/Lesson'', real_of_int lesson)]),
                              step)],
                        queued := []\<rparr>\<rparr>,
                lg @ [(INFO, msg)])"
      and k: "map fst st' = map fst (stats self)"
      and m: "\<forall>k. map_of st' k = (if map_of (stats self) k = None then None else Some [])"
      and v: "set vals = {(k, np_mean xs) | k xs. map_of (stats self) k = Some xs \<and> xs \<noteq> []}"
    by blast
  have per_key: "\<forall>k xs. map_of (stats self) k = Some xs \<longrightarrow>
                map_of st' k = Some []
              \<and> (xs \<noteq> [] \<longrightarrow> (k, np_mean xs) \<in> set vals)
              \<and> (xs = [] \<longrightarrow> k \<notin> fst ` set vals)"
    using m v by force
  have absent: "\<forall>k. map_of (stats self) k = None \<longrightarrow> map_of st' k = None"
    using m by simp
  from w k per_key absent v
  show "\<exists>st' msg vals.
           write_summary cls g delta lesson self lg
             = (Inr (),
                self\<lparr>stats := st',
                     summary_writer := (summary_writer self)
                       \<lparr>flushed := flushed (summary_writer self) @ queued (summary_writer self)
                          @ [(Summary (vals @ [(''Environment/Lesson'', real_of_int lesson)]),
                              step)],
                        queued := []\<rparr>\<rparr>,
                lg @ [(INFO, msg)])
         \<and> map fst st' = map fst (stats self)
         \<and> (\<forall>k xs. map_of (stats self) k = Some xs \<longrightarrow>
                map_of st' k = Some []
              \<and> (xs \<noteq> [] \<longrightarrow> (k, np_mean xs) \<in> set vals)
              \<and> (xs = [] \<longrightarrow> k \<notin> fst ` set vals))
         \<and> (\<forall>k. map_of (stats self) k = None \<longrightarrow> map_of st' k = None)
         \<and> set vals = {(k, np_mean xs) | k xs. map_of (stats self) k = Some xs \<and> xs \<noteq> []}"
    by blast
qed

theorem write_summary_spec_witness:
  "write_summary example_class 0 0 0
     (example_trainer\<lparr>stats := [(''Environment/Cumulative Reward'', [1, 3]),
                                (''Policy/Entropy'', [])]\<rparr>) []
     = (Inr (),
        example_trainer\<lparr>stats := [(''Environment/Cumulative Reward'', [1, 3]),
                                   (''Policy/Entropy'', [])]\<rparr>,
        [])
   \<and> write_summary example_class 10 0 0
        (example_trainer\<lparr>stats := [(''Environment/Cumulative Reward'', [1, 3]),
                                   (''Policy/Entropy'', [])]\<rparr>) []
     = (Inr (),
        example_trainer
          \<lparr>stats := [(''Environment/Cumulative Reward'', []), (''Policy/Entropy'', [])],
           summary_writer :=
             \<lparr>logdir = ''s'', queued = [],
              flushed = [(Summary [(''Environment/Cumulative Reward'', 2),
                                   (''Environment/Lesson'', 0)], 10)]\<rparr>\<rparr>,
        [(INFO, SummaryStats ''run'' ''B'' 10 0 2 1 ''Training.'')])"
  using write_summary_spec
          [where self = "example_trainer\<lparr>stats := [(''Environment/Cumulative Reward'', [1, 3]),
                                                   (''Policy/Entropy'', [])]\<rparr>"
             and freq = "PInt 5" and z = True and cls = example_class and g = 10
             and step = 10 and max_steps = 100 and rs = "[1, 3]"
             and delta = 0 and lesson = 0 and lg = "[]"]
  by (simp add: write_summary_def mod_is_zero_def training_status_def reward_message_def
        np_mean_def np_std_def flush_def add_summary_def
        example_trainer_def example_parameters_def example_class_def)

text \<open>
  The claim as the specification words it fails in two ways. With \<^verbatim>\<open>summary_freq\<close> 0 the
  call at \<^verbatim>\<open>global_step = 0\<close> raises \<^verbatim>\<open>ZeroDivisionError\<close>: the modulo is computed
  before \<^verbatim>\<open>global_step != 0\<close> is tested. And when the statistics have no entry for
  \<^verbatim>\<open>'Environment/Cumulative Reward'\<close>, a triggered call raises \<^verbatim>\<open>KeyError\<close> before
  the loop: a key with samples is neither emitted nor cleared.
\<close>

theorem write_summary_counterexample:
  "write_summary example_class 0 0 0
     (example_trainer\<lparr>trainer_parameters := [''summary_freq'' \<mapsto> PInt 0]\<rparr>) []
     = (Inl ZeroDivisionError,
        example_trainer\<lparr>trainer_parameters := [''summary_freq'' \<mapsto> PInt 0]\<rparr>, [])
   \<and> write_summary example_class 10 0 0
        (example_trainer\<lparr>stats := [(''Policy/Entropy'', [1, 3])]\<rparr>) []
     = (Inl (KeyError ''Environment/Cumulative Reward''),
        example_trainer\<lparr>stats := [(''Policy/Entropy'', [1, 3])]\<rparr>, [])"
  by (simp add: write_summary_def mod_is_zero_def training_status_def reward_message_def
        example_trainer_def example_parameters_def example_class_def)

lemma write_summary_no_episode:
  "(INFO, NoEpisode a b c d) \<in> set (snd (snd (write_summary cls g delta lesson self lg))) \<Longrightarrow>
   (INFO, NoEpisode a b c d) \<notin> set lg \<Longrightarrow>
     map_of (stats self) ''Environment/Cumulative Reward'' = Some []"
  by (auto simp add: write_summary_def reward_message_def
        split: option.splits sum.splits if_splits prod.splits)

text \<open>
  Claim C10, as the code has it. When \<^verbatim>\<open>write_summary\<close> is triggered, the statistics
  have no entry for \<^verbatim>\<open>'Environment/Cumulative Reward'\<close>, and the training status on
  the line before can be computed (the trainer is not training, or its class implements
  \<^verbatim>\<open>get_step\<close> and \<^verbatim>\<open>get_max_steps\<close>), the call raises \<^verbatim>\<open>KeyError\<close> for that key,
  with the trainer and the log as they were. The message that no episode was completed
  is logged only when the key is present with the empty list. A trainer as
  \<^verbatim>\<open>__init__\<close> leaves it has no entry for any key.
\<close>

theorem write_summary_missing_reward_key:
  "(trainer_parameters self ''summary_freq'' = Some freq
      \<and> mod_is_zero g freq = Inr True \<and> g \<noteq> 0
      \<and> map_of (stats self) ''Environment/Cumulative Reward'' = None
      \<and> (\<not> is_training self
           \<or> (\<exists>step max_steps. cls_get_step cls self = Inr step
                 \<and> cls_get_max_steps cls self = Inr max_steps)) \<longrightarrow>
        write_summary cls g delta lesson self lg
          = (Inl (KeyError ''Environment/Cumulative Reward''), self, lg))
   \<and> ((INFO, NoEpisode a b c d) \<in> set (snd (snd (write_summary cls g delta lesson self lg)))
        \<and> (INFO, NoEpisode a b c d) \<notin> set lg \<longrightarrow>
        map_of (stats self) ''Environment/Cumulative Reward'' = Some [])
   \<and> (fst (Trainer_init brain params training rid now files) = Inr t \<longrightarrow>
        stats t = [] \<and> map_of (stats t) k = None)"
proof (intro conjI impI)
  assume a: "trainer_parameters self ''summary_freq'' = Some freq
      \<and> mod_is_zero g freq = Inr True \<and> g \<noteq> 0
      \<and> map_of (stats self) ''Environment/Cumulative Reward'' = None
      \<and> (\<not> is_training self
           \<or> (\<exists>step max_steps. cls_get_step cls self = Inr step
                 \<and> cls_get_max_steps cls self = Inr max_steps))"
  then have "\<exists>status. training_status cls self = Inr status"
    by (auto simp add: training_status_def)
  then obtain status where "training_status cls self = Inr status" by blast
  with a show "write_summary cls g delta lesson self lg
          = (Inl (KeyError ''Environment/Cumulative Reward''), self, lg)"
    by (simp add: write_summary_def reward_message_def)
next
  assume "(INFO, NoEpisode a b c d) \<in> set (snd (snd (write_summary cls g delta lesson self lg)))
        \<and> (INFO, NoEpisode a b c d) \<notin> set lg"
  then have "(INFO, NoEpisode a b c d)
               \<in> set (snd (snd (write_summary cls g delta lesson self lg)))"
    and "(INFO, NoEpisode a b c d) \<notin> set lg"
    by simp_all
  then show "map_of (stats self) ''Environment/Cumulative Reward'' = Some []"
    by (rule write_summary_no_episode)
next
  assume i: "fst (Trainer_init brain params training rid now files) = Inr t"
  then show "stats t = []"
    by (auto simp add: Trainer_init_def split: option.splits pyval.splits sum.splits prod.splits if_splits)
  then show "map_of (stats t) k = None" by simp
qed

theorem write_summary_missing_reward_key_witness:
  "write_summary example_class 10 0 0 example_trainer []
     = (Inl (KeyError ''Environment/Cumulative Reward''), example_trainer, [])
   \<and> snd (snd (write_summary example_class 10 0 0
        (example_trainer\<lparr>stats := [(''Environment/Cumulative Reward'', [])]\<rparr>) []))
     = [(INFO, NoEpisode ''run'' ''B'' 10 ''Training.'')]
   \<and> map_of (stats (example_trainer\<lparr>stats := [(''Environment/Cumulative Reward'', [])]\<rparr>))
        ''Environment/Cumulative Reward'' = Some []
   \<and> fst (Trainer_init ''B'' example_parameters True ''run'' 0 Map.empty) = Inr example_trainer
   \<and> stats example_trainer = []"
  using write_summary_missing_reward_key
          [where self = example_trainer and freq = "PInt 5" and g = 10 and cls = example_class
             and delta = 0 and lesson = 0 and lg = "[]"
             and brain = "''B''" and params = example_parameters and training = True
             and rid = "''run''" and now = 0 and files = Map.empty and t = example_trainer]
        write_summary_missing_reward_key
          [where self = "example_trainer\<lparr>stats := [(''Environment/Cumulative Reward'', [])]\<rparr>"
             and g = 10 and cls = example_class and delta = 0 and lesson = 0 and lg = "[]"
             and a = "''run''" and b = "''B''" and c = 10 and d = "''Training.''"]
  by (simp add: write_summary_def mod_is_zero_def training_status_def reward_message_def
        flush_def add_summary_def Trainer_init_def makedirs_def path_exists_def ancestors_def
        last_component_def dot_name_def is_file_def
        example_trainer_def example_parameters_def example_class_def)

text \<open>
  The claim as it is worded fails on a trainer of the base class that is training: as
  \<^verbatim>\<open>__init__\<close> leaves it the statistics are empty, and the triggered call raises
  \<^verbatim>\<open>UnityTrainerException\<close> from \<^verbatim>\<open>self.get_step\<close>, on the line before the statistics
  are read, not \<^verbatim>\<open>KeyError\<close>.
\<close>

theorem write_summary_missing_reward_key_counterexample:
  "fst (Trainer_init ''B'' example_parameters True ''run'' 0 Map.empty) = Inr example_trainer
   \<and> map_of (stats example_trainer) ''Environment/Cumulative Reward'' = None
   \<and> write_summary Trainer_class 10 0 0 example_trainer []
       = (Inl (UnityTrainerException ''The get_step property was not implemented.''),
          example_trainer, [])"
  by (simp add: write_summary_def mod_is_zero_def training_status_def Trainer_class_def
        get_step_def Trainer_init_def makedirs_def path_exists_def ancestors_def
        last_component_def dot_name_def is_file_def
        example_trainer_def example_parameters_def)

end
